theory Spec2Isabelle
  imports Main
begin

section \<open>Python values used by the program\<close>

text \<open>
  An XML element's \<open>.text\<close> is either a string or \<open>None\<close>, and the program stores it
  unchanged in its dictionaries, so such values are \<open>string option\<close>. Formatting one in
  an f-string prints \<open>None\<close> for the missing value.
\<close>

definition py_str :: "string option \<Rightarrow> string" where
  "py_str t = (case t of None \<Rightarrow> ''None'' | Some s \<Rightarrow> s)"

text \<open>Decimal rendering of a Python int, as \<open>str\<close> and f-strings produce it.\<close>

definition digit :: "nat \<Rightarrow> char" where
  "digit d = char_of (48 + d)"

fun str_nat :: "nat \<Rightarrow> string" where
  "str_nat n = (if n < 10 then [digit n] else str_nat (n div 10) @ [digit (n mod 10)])"

definition str_int :: "int \<Rightarrow> string" where
  "str_int i = (if i < 0 then CHR ''-'' # str_nat (nat (- i)) else str_nat (nat i))"

text \<open>
  The exceptions that reach the functions modelled here. \<open>ConnectionError\<close> carries
  its message, the others are distinguished by class only.
\<close>

datatype exn =
    ConnectionError string
  | FileNotFoundError
  | ParseError
  | AttributeError
  | TypeError
  | ValueError

section \<open>The instrument link: class SCPIClient\<close>

text \<open>
  The network is the program's environment. Every socket operation of the program takes
  one tick of a global clock, and the environment decides the outcome of the operation
  made at a given tick: \<open>dial\<close> answers a \<open>connect\<close> (\<open>None\<close> when the connection
  is established, \<open>Some e\<close> for \<open>socket.error e\<close>), \<open>answer\<close> answers one
  \<open>sendall\<close> followed by one \<open>recv\<close>. Responses are the received text after ASCII
  decoding and \<open>strip\<close>; the instrument protocol is plain ASCII.
\<close>

datatype outcome =
    SendFault string
  | Sent "string + string"

record net =
  dial :: "nat \<Rightarrow> string option \<Rightarrow> int \<Rightarrow> string option"
  answer :: "nat \<Rightarrow> string option \<Rightarrow> int \<Rightarrow> string \<Rightarrow> outcome"

text \<open>
  What the program has done to the network: the number of socket operations so far and
  the commands written to sockets, oldest first, each with the address of its link.
\<close>

record world =
  clock :: nat
  wire :: "(string option \<times> int \<times> string) list"

record 'f channel =
  ch_number :: int
  ch_name :: "string option"
  ch_type :: "string option"
  ch_value :: 'f

text \<open>
  \<open>sock\<close> is \<open>None\<close> when the client holds no socket object, \<open>Some b\<close> when it
  holds one; \<open>b\<close> tells whether \<open>connect\<close> succeeded on it.
\<close>

record 'f scpi_client =
  ip :: "string option"
  port :: int
  sock :: "bool option"
  channels :: "'f channel list"

definition SCPIClient :: "string option \<Rightarrow> int \<Rightarrow> 'f scpi_client" where
  "SCPIClient i p = \<lparr>ip = i, port = p, sock = None, channels = []\<rparr>"

definition tick :: "world \<Rightarrow> world" where
  "tick w = w\<lparr>clock := Suc (clock w)\<rparr>"

definition transmitted :: "'f scpi_client \<Rightarrow> string \<Rightarrow> world \<Rightarrow> world" where
  "transmitted c command w = w\<lparr>wire := wire w @ [(ip c, port c, command)]\<rparr>"

definition connect ::
  "net \<Rightarrow> 'f scpi_client \<Rightarrow> world \<Rightarrow> (exn + unit) \<times> 'f scpi_client \<times> world" where
  "connect nw c w =
     (case dial nw (clock w) (ip c) (port c) of
        None \<Rightarrow> (Inr (), c\<lparr>sock := Some True\<rparr>, tick w)
      | Some e \<Rightarrow>
          (Inl (ConnectionError (''Connection error to '' @ py_str (ip c) @ '': '' @ e)),
           c\<lparr>sock := Some False\<rparr>, tick w))"

definition read_response :: "string + string \<Rightarrow> 'f scpi_client \<Rightarrow> exn + string" where
  "read_response received c =
     (case received of
        Inr response \<Rightarrow> Inr response
      | Inl e \<Rightarrow>
          Inl (ConnectionError (''Error reading response from '' @ py_str (ip c) @ '': '' @ e)))"

text \<open>
  In \<open>send_command\<close> the implicit \<open>connect\<close> is outside the \<open>try\<close>, so its error
  propagates unchanged. Inside the \<open>try\<close>, the \<open>ConnectionError\<close> of
  \<open>read_response\<close> is itself a \<open>socket.error\<close> (both are \<open>OSError\<close>) and is
  wrapped a second time.
\<close>

definition sending_error :: "'f scpi_client \<Rightarrow> string \<Rightarrow> exn" where
  "sending_error c e =
     ConnectionError (''Error sending command to '' @ py_str (ip c) @ '': '' @ e)"

definition exchange ::
  "net \<Rightarrow> string \<Rightarrow> 'f scpi_client \<Rightarrow> world \<Rightarrow> (exn + string) \<times> 'f scpi_client \<times> world" where
  "exchange nw command c w =
     (case answer nw (clock w) (ip c) (port c) command of
        SendFault e \<Rightarrow> (Inl (sending_error c e), c, tick w)
      | Sent received \<Rightarrow>
          (case read_response received c of
             Inl (ConnectionError m) \<Rightarrow> (Inl (sending_error c m), c, transmitted c command (tick w))
           | Inl x \<Rightarrow> (Inl x, c, transmitted c command (tick w))
           | Inr response \<Rightarrow> (Inr response, c, transmitted c command (tick w))))"

definition send_command ::
  "net \<Rightarrow> string \<Rightarrow> 'f scpi_client \<Rightarrow> world \<Rightarrow> (exn + string) \<times> 'f scpi_client \<times> world" where
  "send_command nw command c w =
     (if sock c = None then
        (case connect nw c w of
           (Inl e, c', w') \<Rightarrow> (Inl e, c', w')
         | (Inr u, c', w') \<Rightarrow> exchange nw command c' w')
      else exchange nw command c w)"

definition close :: "'f scpi_client \<Rightarrow> 'f scpi_client" where
  "close c = (if sock c \<noteq> None then c\<lparr>sock := None\<rparr> else c)"

section \<open>Sequencing of operations that may raise\<close>

text \<open>
  An operation on a link takes the client object and the world and returns its result
  (\<open>Inl\<close> an exception) with both updated. \<open>and_then\<close> is sequential composition:
  an exception skips the rest. \<open>for_each\<close> is a \<open>for\<close> loop whose body may raise.
\<close>

definition and_then ::
  "(exn + 'a) \<times> 'c \<times> 'w \<Rightarrow> ('a \<Rightarrow> 'c \<Rightarrow> 'w \<Rightarrow> (exn + 'b) \<times> 'c \<times> 'w) \<Rightarrow> (exn + 'b) \<times> 'c \<times> 'w" where
  "and_then r f = (case r of (Inl e, c, w) \<Rightarrow> (Inl e, c, w) | (Inr a, c, w) \<Rightarrow> f a c w)"

definition finished :: "'c \<Rightarrow> 'w \<Rightarrow> (exn + unit) \<times> 'c \<times> 'w" where
  "finished c w = (Inr (), c, w)"

fun for_each ::
  "('a \<Rightarrow> 'c \<Rightarrow> 'w \<Rightarrow> (exn + unit) \<times> 'c \<times> 'w) \<Rightarrow> 'a list \<Rightarrow> 'c \<Rightarrow> 'w \<Rightarrow> (exn + unit) \<times> 'c \<times> 'w" where
  "for_each body [] c w = finished c w"
| "for_each body (x # xs) c w = and_then (body x c w) (\<lambda>u. for_each body xs)"

section \<open>Device descriptions\<close>

text \<open>
  \<open>read_devices_from_xml\<close> builds two shapes of dictionary: one with the key
  \<open>channels\<close> (an electronic load) and one with the keys \<open>voltage_channels\<close> and
  \<open>current_channels\<close> (a power supply). \<open>'f\<close> is the type of Python floats, which the
  program only parses and prints.
\<close>

record 'f setting =
  s_number :: int
  s_value :: 'f

datatype 'f device =
    ElectronicLoad (d_id: "string option") (d_ip: "string option") (d_port: int)
      (d_channels: "'f channel list")
  | PowerSupply (d_id: "string option") (d_ip: "string option") (d_port: int)
      (voltage_channels: "'f setting list") (current_channels: "'f setting list")

text \<open>\<open>device.get('channels', [])\<close> and \<open>'channels' in device\<close>.\<close>

fun get_channels :: "'f device \<Rightarrow> 'f channel list" where
  "get_channels (ElectronicLoad i a p chs) = chs"
| "get_channels (PowerSupply i a p vs cs) = []"

fun has_channels :: "'f device \<Rightarrow> bool" where
  "has_channels (ElectronicLoad i a p chs) = True"
| "has_channels (PowerSupply i a p vs cs) = False"

section \<open>Initialization: class AsyncWorker\<close>

text \<open>
  The two \<open>result\<close> messages are kept by their parts: \<open>Bagli i r\<close> is the message
  "Cihaz i bagli: r" (device connected, with its identification), \<open>Baglanamadi i\<close> is
  "Cihaz i baglanamadi." (the device gave no identification).
\<close>

datatype result_text =
    Bagli "string option" string
  | Baglanamadi "string option"

datatype signal =
    Progress int
  | Result result_text
  | Error string
  | Done

record 'f worker =
  emitted :: "signal list"
  worker_clients :: "'f scpi_client list"

definition emit :: "signal \<Rightarrow> 'f worker \<Rightarrow> 'f worker" where
  "emit sg k = k\<lparr>emitted := emitted k @ [sg]\<rparr>"

definition initialize_channel ::
  "net \<Rightarrow> ('f \<Rightarrow> string) \<Rightarrow> 'f channel \<Rightarrow> 'f scpi_client \<Rightarrow> world
     \<Rightarrow> (exn + unit) \<times> 'f scpi_client \<times> world" where
  "initialize_channel nw fmt channel client w =
     (let number = ch_number channel; mode = ch_type channel; val = ch_value channel in
      and_then (send_command nw (''CHAN '' @ str_int number) client w) (\<lambda>r1 c1 w1.
      and_then (send_command nw (''FUNC '' @ py_str mode) c1 w1) (\<lambda>r2 c2 w2.
        if mode = Some ''RES'' then
          and_then (send_command nw (''RES '' @ fmt val) c2 w2) (\<lambda>r3. finished)
        else if mode = Some ''CURR'' then
          and_then (send_command nw (''CURR '' @ fmt val) c2 w2) (\<lambda>r3. finished)
        else if mode = Some ''VOLT'' then
          and_then (send_command nw (''VOLT '' @ fmt val) c2 w2) (\<lambda>r3. finished)
        else finished c2 w2)))"

definition initialize_voltage_channel ::
  "net \<Rightarrow> ('f \<Rightarrow> string) \<Rightarrow> 'f setting \<Rightarrow> 'f scpi_client \<Rightarrow> world
     \<Rightarrow> (exn + unit) \<times> 'f scpi_client \<times> world" where
  "initialize_voltage_channel nw fmt channel client w =
     and_then
       (send_command nw (''VOLT '' @ str_int (s_number channel) @ '','' @ fmt (s_value channel))
          client w)
       (\<lambda>r. finished)"

definition initialize_current_channel ::
  "net \<Rightarrow> ('f \<Rightarrow> string) \<Rightarrow> 'f setting \<Rightarrow> 'f scpi_client \<Rightarrow> world
     \<Rightarrow> (exn + unit) \<times> 'f scpi_client \<times> world" where
  "initialize_current_channel nw fmt channel client w =
     and_then
       (send_command nw (''CURR '' @ str_int (s_number channel) @ '','' @ fmt (s_value channel))
          client w)
       (\<lambda>r. finished)"

text \<open>The configuration of one device after it has identified itself.\<close>

definition configure ::
  "net \<Rightarrow> ('f \<Rightarrow> string) \<Rightarrow> 'f device \<Rightarrow> 'f scpi_client \<Rightarrow> world
     \<Rightarrow> (exn + unit) \<times> 'f scpi_client \<times> world" where
  "configure nw fmt device client w =
     (if has_channels device then
        for_each (initialize_channel nw fmt) (channels client) client w
      else
        and_then (for_each (initialize_voltage_channel nw fmt) (voltage_channels device) client w)
          (\<lambda>u. for_each (initialize_current_channel nw fmt) (current_channels device)))"

text \<open>
  The body of the \<open>try\<close> in \<open>run\<close>. The worker is part of the state: the
  \<open>result\<close> signal of a device that identified itself has been emitted before its
  channels are configured, and stays emitted when one of them raises.
\<close>

definition attempt ::
  "net \<Rightarrow> ('f \<Rightarrow> string) \<Rightarrow> 'f device \<Rightarrow> 'f scpi_client \<Rightarrow> 'f worker \<times> world
     \<Rightarrow> (exn + unit) \<times> 'f scpi_client \<times> 'f worker \<times> world" where
  "attempt nw fmt device client kw =
     (case connect nw client (snd kw) of
        (Inl e, c1, w1) \<Rightarrow> (Inl e, c1, fst kw, w1)
      | (Inr u, c1, w1) \<Rightarrow>
          (case send_command nw ''*IDN?'' c1 w1 of
             (Inl e, c2, w2) \<Rightarrow> (Inl e, c2, fst kw, w2)
           | (Inr response, c2, w2) \<Rightarrow>
               if response \<noteq> [] then
                 (let k1 = emit (Result (Bagli (d_id device) response)) (fst kw) in
                  case configure nw fmt device c2 w2 of
                    (Inl e, c3, w3) \<Rightarrow> (Inl e, c3, k1, w3)
                  | (Inr u', c3, w3) \<Rightarrow>
                      (Inr (), c3, k1\<lparr>worker_clients := worker_clients k1 @ [c3]\<rparr>, w3))
               else (Inr (), c2, emit (Result (Baglanamadi (d_id device))) (fst kw), w2)))"

text \<open>
  One iteration of the loop of \<open>run\<close>: only \<open>ConnectionError\<close> is caught; any other
  exception leaves the loop and ends the run.
\<close>

definition run_device ::
  "net \<Rightarrow> ('f \<Rightarrow> string) \<Rightarrow> int \<Rightarrow> int \<Rightarrow> 'f device \<Rightarrow> 'f worker \<times> world
     \<Rightarrow> exn + 'f worker \<times> world" where
  "run_device nw fmt total_devices idx device kw =
     (let client = (SCPIClient (d_ip device) (d_port device))\<lparr>channels := get_channels device\<rparr> in
      case attempt nw fmt device client kw of
        (Inr u, c, k, w) \<Rightarrow> Inr (emit (Progress ((idx + 1) * 100 div total_devices)) k, w)
      | (Inl (ConnectionError m), c, k, w) \<Rightarrow>
          Inr (emit (Progress ((idx + 1) * 100 div total_devices)) (emit (Error m) k), w)
      | (Inl e, c, k, w) \<Rightarrow> Inl e)"

fun run_loop ::
  "net \<Rightarrow> ('f \<Rightarrow> string) \<Rightarrow> int \<Rightarrow> int \<Rightarrow> 'f device list \<Rightarrow> 'f worker \<times> world
     \<Rightarrow> exn + 'f worker \<times> world" where
  "run_loop nw fmt total_devices idx [] kw = Inr kw"
| "run_loop nw fmt total_devices idx (device # rest) kw =
     (case run_device nw fmt total_devices idx device kw of
        Inl e \<Rightarrow> Inl e
      | Inr kw' \<Rightarrow> run_loop nw fmt total_devices (idx + 1) rest kw')"


definition run ::
  "net \<Rightarrow> ('f \<Rightarrow> string) \<Rightarrow> 'f device list \<Rightarrow> 'f worker \<times> world \<Rightarrow> exn + 'f worker \<times> world" where
  "run nw fmt devices kw =
     (case run_loop nw fmt (int (length devices)) 0 devices kw of
        Inl e \<Rightarrow> Inl e
      | Inr (k, w) \<Rightarrow> Inr (emit Done k, w))"

section \<open>The main window: telemetry logging\<close>

text \<open>
  The part of \<open>MainWindow\<close> the core operations read and write, together with what they
  do to the outside: the content of the file \<open>log_data.csv\<close> as a list of rows (empty
  when the file does not exist yet), the lines printed, the message boxes shown, the
  \<open>QTimer\<close> objects created so far (\<open>True\<close> while active; \<open>logging_timer\<close> is the
  index of the one the attribute refers to) and the coroutines handed to
  \<open>asyncio.ensure_future\<close> that have not run yet, oldest first.
\<close>

datatype task = StartLogging | LogData

datatype dialog =
    EnterValidPath
  | LoadedOk
  | FileNotFoundDialog string
  | FileUnreadableDialog string

datatype manual_status =
    EnterValidInputs
  | CommandSent string
  | CommandNotSent

record 'f window =
  devices :: "'f device list option"
  scpi_clients :: "'f scpi_client list"
  logging_timer :: "nat option"
  timers :: "bool list"
  logging_interval_input :: string
  log_file :: "string list list"
  console :: "string list"
  dialogs :: "dialog list"
  tasks :: "task list"
  response_output :: "(string \<times> string option) list"
  manual_command_status :: "manual_status option"

definition print :: "string \<Rightarrow> 'f window \<Rightarrow> 'f window" where
  "print line m = m\<lparr>console := console m @ [line]\<rparr>"

definition writerow :: "string list \<Rightarrow> 'f window \<Rightarrow> 'f window" where
  "writerow row m = m\<lparr>log_file := log_file m @ [row]\<rparr>"

definition fieldnames :: "string list" where
  "fieldnames = [''Time'', ''IP'', ''Channel'', ''Current'', ''Voltage'', ''Resistance'']"

text \<open>The \<open>csv\<close> module writes \<open>None\<close> as an empty cell.\<close>

definition csv_cell :: "string option \<Rightarrow> string" where
  "csv_cell t = (case t of None \<Rightarrow> [] | Some s \<Rightarrow> s)"

definition exn_str :: "exn \<Rightarrow> string" where
  "exn_str e = (case e of ConnectionError m \<Rightarrow> m | _ \<Rightarrow> [])"

text \<open>
  \<open>async_start_logging\<close>: \<open>int(...)\<close> of the interval field comes first and raises
  \<open>ValueError\<close> on text that is no integer; \<open>to_int\<close> is Python's \<open>int\<close> on strings.
  Then a new timer is created and started, and the file is opened in mode \<open>'w'\<close> and the
  header written.
\<close>

definition async_start_logging ::
  "(string \<Rightarrow> int option) \<Rightarrow> 'f window \<Rightarrow> exn + 'f window" where
  "async_start_logging to_int m =
     (case to_int (logging_interval_input m) of
        None \<Rightarrow> Inl ValueError
      | Some interval \<Rightarrow>
          Inr ((print (''Start logging every '' @ str_int interval @ '' seconds'') m)
                 \<lparr>logging_timer := Some (length (timers m)),
                  timers := timers m @ [True],
                  log_file := [fieldnames]\<rparr>))"

definition stop_logging :: "'f window \<Rightarrow> 'f window" where
  "stop_logging m =
     print ''Stop logging''
       (case logging_timer m of
          None \<Rightarrow> m
        | Some i \<Rightarrow> m\<lparr>timers := (timers m)[i := False]\<rparr>)"

definition on_link ::
  "('c \<Rightarrow> world \<Rightarrow> (exn + 'a) \<times> 'c \<times> world) \<Rightarrow> 'c \<Rightarrow> world \<times> 'm \<Rightarrow> (exn + 'a) \<times> 'c \<times> world \<times> 'm" where
  "on_link operation c s = (case operation c (fst s) of (r, c', w') \<Rightarrow> (r, c', w', snd s))"

text \<open>The line printed for a reading.\<close>

definition reading_line :: "string option \<Rightarrow> int \<Rightarrow> string \<Rightarrow> string \<Rightarrow> string \<Rightarrow> string" where
  "reading_line address number current voltage resistance =
     py_str address @ '' - Channel '' @ str_int number @ '' - Current: '' @ current
       @ '', Voltage: '' @ voltage @ '', Resistance: '' @ resistance"

text \<open>
  The body of the inner loop of \<open>log_data\<close>. The update of the display that follows
  \<open>writerow\<close> touches widgets only and is not part of the state.
\<close>

definition log_channel ::
  "net \<Rightarrow> 'f channel \<Rightarrow> 'f scpi_client \<Rightarrow> world \<times> 'f window
     \<Rightarrow> (exn + unit) \<times> 'f scpi_client \<times> world \<times> 'f window" where
  "log_channel nw channel client s =
     and_then (on_link (send_command nw (''CHAN '' @ str_int (ch_number channel))) client s)
       (\<lambda>r0 c0 s0.
     and_then (on_link (send_command nw ''MEASure:CURRent?'') c0 s0) (\<lambda>current c1 s1.
     and_then (on_link (send_command nw ''MEASure:VOLTage?'') c1 s1) (\<lambda>voltage c2 s2.
     and_then (on_link (send_command nw ''MEASure:RESistance?'') c2 s2) (\<lambda>resistance c3 s3.
       finished c3
         (fst s3,
          writerow [csv_cell (ip c3), str_int (ch_number channel), current, voltage, resistance]
            (print (reading_line (ip c3) (ch_number channel) current voltage resistance)
               (snd s3)))))))"

text \<open>The \<open>try\<close> around the inner loop: \<open>except Exception\<close> catches whatever is raised.\<close>

definition log_client ::
  "net \<Rightarrow> 'f scpi_client \<Rightarrow> world \<times> 'f window \<Rightarrow> 'f scpi_client \<times> world \<times> 'f window" where
  "log_client nw client s =
     (case for_each (log_channel nw) (channels client) client s of
        (Inr u, c, s') \<Rightarrow> (c, s')
      | (Inl e, c, s') \<Rightarrow>
          (c, fst s',
           print (''Error during logging from '' @ py_str (ip c) @ '': '' @ exn_str e) (snd s')))"

fun log_clients ::
  "net \<Rightarrow> 'f scpi_client list \<Rightarrow> world \<times> 'f window \<Rightarrow> 'f scpi_client list \<times> world \<times> 'f window" where
  "log_clients nw [] s = ([], s)"
| "log_clients nw (client # rest) s =
     (case log_client nw client s of
        (c, s') \<Rightarrow> (case log_clients nw rest s' of (cs, s'') \<Rightarrow> (c # cs, s'')))"

definition log_data :: "net \<Rightarrow> world \<times> 'f window \<Rightarrow> world \<times> 'f window" where
  "log_data nw s =
     (case log_clients nw (scpi_clients (snd s)) s of
        (cs, w, m) \<Rightarrow> (w, m\<lparr>scpi_clients := cs\<rparr>))"

subsection \<open>The event loop\<close>

text \<open>
  What can happen to the window, one event at a time: a click on the start button hands
  \<open>async_start_logging\<close> to \<open>ensure_future\<close>; a click on the stop button calls
  \<open>stop_logging\<close>; the timeout of an active timer hands \<open>log_data\<close> to
  \<open>ensure_future\<close>; the loop runs the oldest coroutine handed over; the operator edits
  the interval field. A coroutine that raises ends, and the loop goes on.
\<close>

datatype event =
    ClickStart
  | ClickStop
  | Timeout nat
  | RunTask
  | Edit string

fun step ::
  "net \<Rightarrow> (string \<Rightarrow> int option) \<Rightarrow> event \<Rightarrow> world \<times> 'f window \<Rightarrow> world \<times> 'f window" where
  "step nw to_int ClickStart (w, m) = (w, m\<lparr>tasks := tasks m @ [StartLogging]\<rparr>)"
| "step nw to_int ClickStop (w, m) = (w, stop_logging m)"
| "step nw to_int (Timeout i) (w, m) =
     (if i < length (timers m) \<and> timers m ! i then (w, m\<lparr>tasks := tasks m @ [LogData]\<rparr>)
      else (w, m))"
| "step nw to_int RunTask (w, m) =
     (case tasks m of
        [] \<Rightarrow> (w, m)
      | StartLogging # ts \<Rightarrow>
          (case async_start_logging to_int (m\<lparr>tasks := ts\<rparr>) of
             Inl e \<Rightarrow> (w, m\<lparr>tasks := ts\<rparr>)
           | Inr m' \<Rightarrow> (w, m'))
      | LogData # ts \<Rightarrow> log_data nw (w, m\<lparr>tasks := ts\<rparr>))"
| "step nw to_int (Edit t) (w, m) = (w, m\<lparr>logging_interval_input := t\<rparr>)"

fun steps ::
  "net \<Rightarrow> (string \<Rightarrow> int option) \<Rightarrow> event list \<Rightarrow> world \<times> 'f window \<Rightarrow> world \<times> 'f window" where
  "steps nw to_int [] s = s"
| "steps nw to_int (ev # evs) s = steps nw to_int evs (step nw to_int ev s)"

section \<open>The manual command\<close>

text \<open>
  \<open>async_connect_and_send_manual_command\<close> on the texts of the three input fields. The
  result is the exception that leaves the coroutine, if any, and the client object it
  created, if any, as the coroutine leaves it. There is no \<open>try\<close> in the function:
  \<open>close\<close> is its last statement.
\<close>

definition async_connect_and_send_manual_command ::
  "net \<Rightarrow> (string \<Rightarrow> int option) \<Rightarrow> string \<Rightarrow> string \<Rightarrow> string \<Rightarrow> world \<times> 'f window
     \<Rightarrow> (exn option \<times> 'f scpi_client option) \<times> world \<times> 'f window" where
  "async_connect_and_send_manual_command nw to_int ip_text port_text command s =
     (case to_int port_text of
        None \<Rightarrow> ((Some ValueError, None), s)
      | Some port_number \<Rightarrow>
          if ip_text = [] \<or> port_number = 0 \<or> command = [] then
            ((None, None), fst s, (snd s)\<lparr>manual_command_status := Some EnterValidInputs\<rparr>)
          else
            (case connect nw (SCPIClient (Some ip_text) port_number) (fst s) of
               (Inl e, c1, w1) \<Rightarrow> ((Some e, Some c1), w1, snd s)
             | (Inr u, c1, w1) \<Rightarrow>
                 (case send_command nw command c1 w1 of
                    (Inl e, c2, w2) \<Rightarrow> ((Some e, Some c2), w2, snd s)
                  | (Inr response, c2, w2) \<Rightarrow>
                      ((None, Some (close c2)), w2,
                       if response \<noteq> [] then
                         (snd s)\<lparr>response_output :=
                                    response_output (snd s) @ [(command, Some response)],
                                  manual_command_status := Some (CommandSent response)\<rparr>
                       else
                         (snd s)\<lparr>response_output := response_output (snd s) @ [(command, None)],
                                  manual_command_status := Some CommandNotSent\<rparr>))))"

section \<open>The configuration document\<close>

text \<open>
  An element of the parsed document, as \<open>xml.etree.ElementTree\<close> gives it: its tag,
  its \<open>.text\<close> (\<open>None\<close> for an element without text) and its children in document
  order. \<open>ET.parse\<close> of a path raises \<open>FileNotFoundError\<close>, raises \<open>ParseError\<close>, or
  gives the root element; the file system is the function that tells which.
\<close>

datatype xml = Element (el_tag: string) (el_text: "string option") (el_children: "xml list")

datatype parsed = NoSuchFile | NotWellFormed | Root xml

definition et_find :: "string \<Rightarrow> xml \<Rightarrow> xml option" where
  "et_find t e = List.find (\<lambda>c. el_tag c = t) (el_children e)"

definition et_findall :: "string \<Rightarrow> xml \<Rightarrow> xml list" where
  "et_findall t e = filter (\<lambda>c. el_tag c = t) (el_children e)"

text \<open>\<open>findall('A/B')\<close>: the children \<open>B\<close> of the children \<open>A\<close>.\<close>

definition et_findall2 :: "string \<Rightarrow> string \<Rightarrow> xml \<Rightarrow> xml list" where
  "et_findall2 a b e = concat (map (et_findall b) (et_findall a e))"

definition bind_exn :: "exn + 'a \<Rightarrow> ('a \<Rightarrow> exn + 'b) \<Rightarrow> exn + 'b" where
  "bind_exn r f = (case r of Inl e \<Rightarrow> Inl e | Inr a \<Rightarrow> f a)"

text \<open>A loop that appends what its body returns, leaving at the first exception.\<close>

fun collect :: "('a \<Rightarrow> exn + 'b) \<Rightarrow> 'a list \<Rightarrow> exn + 'b list" where
  "collect body [] = Inr []"
| "collect body (x # xs) =
     bind_exn (body x) (\<lambda>y. bind_exn (collect body xs) (\<lambda>ys. Inr (y # ys)))"

text \<open>
  \<open>e.find(t).text\<close>: \<open>find\<close> returns \<open>None\<close> for a missing child, and \<open>.text\<close> of
  \<open>None\<close> raises \<open>AttributeError\<close>.
\<close>

definition find_text :: "string \<Rightarrow> xml \<Rightarrow> exn + string option" where
  "find_text t e = (case et_find t e of None \<Rightarrow> Inl AttributeError | Some c \<Rightarrow> Inr (el_text c))"

text \<open>
  \<open>int(x)\<close> and \<open>float(x)\<close>: \<open>TypeError\<close> on \<open>None\<close>, \<open>ValueError\<close> on a string that
  is no number. The parameter is Python's conversion on strings.
\<close>

definition convert :: "(string \<Rightarrow> 'a option) \<Rightarrow> string option \<Rightarrow> exn + 'a" where
  "convert of_string t =
     (case t of
        None \<Rightarrow> Inl TypeError
      | Some s \<Rightarrow> (case of_string s of None \<Rightarrow> Inl ValueError | Some v \<Rightarrow> Inr v))"

definition read_channel ::
  "(string \<Rightarrow> int option) \<Rightarrow> (string \<Rightarrow> 'f option) \<Rightarrow> xml \<Rightarrow> exn + 'f channel" where
  "read_channel to_int to_float channel =
     bind_exn (bind_exn (find_text ''Number'' channel) (convert to_int)) (\<lambda>n.
     bind_exn (find_text ''Name'' channel) (\<lambda>nm.
     bind_exn (find_text ''Type'' channel) (\<lambda>ty.
     bind_exn (bind_exn (find_text ''Value'' channel) (convert to_float)) (\<lambda>v.
       Inr \<lparr>ch_number = n, ch_name = nm, ch_type = ty, ch_value = v\<rparr>))))"

definition read_setting ::
  "(string \<Rightarrow> int option) \<Rightarrow> (string \<Rightarrow> 'f option) \<Rightarrow> xml \<Rightarrow> exn + 'f setting" where
  "read_setting to_int to_float channel =
     bind_exn (bind_exn (find_text ''Number'' channel) (convert to_int)) (\<lambda>n.
     bind_exn (bind_exn (find_text ''Value'' channel) (convert to_float)) (\<lambda>v.
       Inr \<lparr>s_number = n, s_value = v\<rparr>))"

text \<open>\<open>device.find(t).findall('Channel')\<close>, then the loop over the channels found.\<close>

definition read_list :: "string \<Rightarrow> (xml \<Rightarrow> exn + 'b) \<Rightarrow> xml \<Rightarrow> exn + 'b list" where
  "read_list t body device =
     (case et_find t device of
        None \<Rightarrow> Inl AttributeError
      | Some e \<Rightarrow> collect body (et_findall ''Channel'' e))"

definition read_load ::
  "(string \<Rightarrow> int option) \<Rightarrow> (string \<Rightarrow> 'f option) \<Rightarrow> xml \<Rightarrow> exn + 'f device" where
  "read_load to_int to_float device =
     bind_exn (find_text ''ID'' device) (\<lambda>i.
     bind_exn (find_text ''IP'' device) (\<lambda>a.
     bind_exn (bind_exn (find_text ''Port'' device) (convert to_int)) (\<lambda>p.
     bind_exn (read_list ''Channels'' (read_channel to_int to_float) device) (\<lambda>chs.
       Inr (ElectronicLoad i a p chs)))))"

definition read_supply ::
  "(string \<Rightarrow> int option) \<Rightarrow> (string \<Rightarrow> 'f option) \<Rightarrow> xml \<Rightarrow> exn + 'f device" where
  "read_supply to_int to_float device =
     bind_exn (find_text ''ID'' device) (\<lambda>i.
     bind_exn (find_text ''IP'' device) (\<lambda>a.
     bind_exn (bind_exn (find_text ''Port'' device) (convert to_int)) (\<lambda>p.
     bind_exn (read_list ''VoltageValues'' (read_setting to_int to_float) device) (\<lambda>vs.
     bind_exn (read_list ''CurrentValues'' (read_setting to_int to_float) device) (\<lambda>cs.
       Inr (PowerSupply i a p vs cs))))))"

definition read_devices_from_xml ::
  "(string \<Rightarrow> parsed) \<Rightarrow> (string \<Rightarrow> int option) \<Rightarrow> (string \<Rightarrow> 'f option) \<Rightarrow> string
     \<Rightarrow> exn + 'f device list" where
  "read_devices_from_xml fs to_int to_float file_path =
     (case fs file_path of
        NoSuchFile \<Rightarrow> Inl FileNotFoundError
      | NotWellFormed \<Rightarrow> Inl ParseError
      | Root root \<Rightarrow>
          bind_exn
            (collect (read_load to_int to_float)
               (et_findall2 ''ElectronicLoads'' ''ElectronicLoad'' root)) (\<lambda>loads.
          bind_exn
            (collect (read_supply to_int to_float)
               (et_findall2 ''PowerSupplys'' ''PowerSupply'' root)) (\<lambda>supplies.
            Inr (loads @ supplies))))"

definition show_dialog :: "dialog \<Rightarrow> 'f window \<Rightarrow> 'f window" where
  "show_dialog d m = m\<lparr>dialogs := dialogs m @ [d]\<rparr>"

text \<open>
  \<open>load_xml\<close> on the text of the path field. It has handlers for \<open>FileNotFoundError\<close>
  and \<open>ET.ParseError\<close> only; the result is the exception that leaves it, if any. The
  rebuilding of the display grid after a successful load touches widgets only.
\<close>

definition load_xml ::
  "(string \<Rightarrow> parsed) \<Rightarrow> (string \<Rightarrow> int option) \<Rightarrow> (string \<Rightarrow> 'f option) \<Rightarrow> string \<Rightarrow> 'f window
     \<Rightarrow> exn option \<times> 'f window" where
  "load_xml fs to_int to_float file_path m =
     (if file_path = [] then (None, show_dialog EnterValidPath m)
      else
        (case read_devices_from_xml fs to_int to_float file_path of
           Inr ds \<Rightarrow> (None, show_dialog LoadedOk (m\<lparr>devices := Some ds\<rparr>))
         | Inl FileNotFoundError \<Rightarrow> (None, show_dialog (FileNotFoundDialog file_path) m)
         | Inl ParseError \<Rightarrow> (None, show_dialog (FileUnreadableDialog file_path) m)
         | Inl e \<Rightarrow> (Some e, m)))"

section \<open>Notions used to state the properties\<close>











text \<open>
  What a poll cycle may do to the window: append rows to the log, print, and nothing to
  the timers or to the coroutines waiting to run.
\<close>

definition cycle_step :: "'f window \<Rightarrow> 'f window \<Rightarrow> bool" where
  "cycle_step m m' =
     ((\<exists>rows. log_file m' = log_file m @ rows) \<and> timers m' = timers m \<and> tasks m' = tasks m \<and>
      logging_timer m' = logging_timer m)"

text \<open>No coroutine is waiting and no timer is active.\<close>

definition idle :: "'f window \<Rightarrow> bool" where
  "idle m = (tasks m = [] \<and> True \<notin> set (timers m))"

text \<open>
  A command the link can encode: \<open>send_command\<close> encodes the command as ASCII before
  it writes it, and a port that \<open>socket.connect\<close> accepts.
\<close>

definition plain_ascii :: "string \<Rightarrow> bool" where
  "plain_ascii s = list_all (\<lambda>c. (of_char c :: nat) < 128) s"

definition valid_port :: "int \<Rightarrow> bool" where
  "valid_port p = (0 < p \<and> p \<le> 65535)"

text \<open>
  The exceptions raised by \<open>read_devices_from_xml\<close> on a document that parses but lacks
  an element, has an element without text where a number is expected, or has a text that
  is no number.
\<close>

definition field_error :: "exn \<Rightarrow> bool" where
  "field_error e = (e = AttributeError \<or> e = TypeError \<or> e = ValueError)"

section \<open>A test bench\<close>


definition lab :: net where
  "lab = \<lparr>dial = (\<lambda>t a p. None), answer = (\<lambda>t a p c. Sent (Inr ''OK''))\<rparr>"

definition lab_refusing :: "string \<Rightarrow> net" where
  "lab_refusing x =
     \<lparr>dial = (\<lambda>t a p. if a = Some x then Some ''refused'' else None),
      answer = (\<lambda>t a p c. Sent (Inr ''OK''))\<rparr>"


definition world0 :: world where
  "world0 = \<lparr>clock = 0, wire = []\<rparr>"

definition channel_a :: "int channel" where
  "channel_a = \<lparr>ch_number = 1, ch_name = Some ''A'', ch_type = Some ''VOLT'', ch_value = 5\<rparr>"

definition channel_b :: "int channel" where
  "channel_b = \<lparr>ch_number = 2, ch_name = Some ''B'', ch_type = Some ''CURR'', ch_value = 1\<rparr>"

definition load1 :: "int device" where
  "load1 = ElectronicLoad (Some ''L1'') (Some ''10.0.0.1'') 5025 [channel_a, channel_b]"


definition supply3 :: "int device" where
  "supply3 =
     PowerSupply (Some ''P3'') (Some ''10.0.0.3'') 5025
       [\<lparr>s_number = 1, s_value = 12\<rparr>] [\<lparr>s_number = 1, s_value = 2\<rparr>]"

text \<open>The window as \<open>__init__\<close> leaves it, with the interval field filled in.\<close>

definition window0 :: "int window" where
  "window0 =
     \<lparr>devices = None, scpi_clients = [], logging_timer = None, timers = [],
      logging_interval_input = ''1'', log_file = [], console = [], dialogs = [], tasks = [],
      response_output = [], manual_command_status = None\<rparr>"

text \<open>
  Clients as an initialization leaves them, windows that hold them, and a network where
  the instrument at address \<open>x\<close> has dropped its connection.
\<close>

definition client1 :: "int scpi_client" where
  "client1 = \<lparr>ip = Some ''10.0.0.1'', port = 5025, sock = Some True,
              channels = [channel_a, channel_b]\<rparr>"

definition client2 :: "int scpi_client" where
  "client2 = \<lparr>ip = Some ''10.0.0.2'', port = 5025, sock = Some True,
              channels = [channel_a, channel_b]\<rparr>"

definition client3 :: "int scpi_client" where
  "client3 = \<lparr>ip = Some ''10.0.0.3'', port = 5025, sock = Some True, channels = [channel_a]\<rparr>"

definition window1 :: "int window" where
  "window1 = window0\<lparr>scpi_clients := [client1]\<rparr>"

definition window3 :: "int window" where
  "window3 = window0\<lparr>scpi_clients := [client1, client2, client3]\<rparr>"

definition lab_dropped :: "string \<Rightarrow> net" where
  "lab_dropped x =
     \<lparr>dial = (\<lambda>t a p. None),
      answer = (\<lambda>t a p c. if a = Some x \<and> c = ''MEASure:VOLTage?'' then SendFault ''Broken pipe''
                          else Sent (Inr ''OK''))\<rparr>"

text \<open>Python's \<open>int\<close> on the strings of decimal digits; other strings are rejected here.\<close>

definition decimal :: "string \<Rightarrow> int option" where
  "decimal s =
     (if s \<noteq> [] \<and> list_all (\<lambda>c. 48 \<le> (of_char c :: nat) \<and> (of_char c :: nat) \<le> 57) s
      then Some (foldl (\<lambda>a c. 10 * a + (int (of_char c) - 48)) 0 s)
      else None)"


text \<open>A logging session under way: started, and one poll cycle done.\<close>

definition running1 :: "world \<times> int window" where
  "running1 = steps lab decimal [ClickStart, RunTask, Timeout 0, RunTask] (world0, window1)"

text \<open>
  Python's \<open>float\<close> on the strings of decimal digits gives the float \<open>n.0\<close>, which
  the bench represents by \<open>n\<close>; the bench uses no other numerals.
\<close>

definition decimal_float :: "string \<Rightarrow> int option" where
  "decimal_float s = decimal s"

text \<open>
  Configuration documents: one that describes \<open>load1\<close> and \<open>supply3\<close>, and one whose
  only load has no \<open>ID\<close> element. \<open>disk\<close> is a file system that holds them, a file
  that is not well-formed XML, and nothing else.
\<close>

definition leaf :: "string \<Rightarrow> string \<Rightarrow> xml" where
  "leaf t s = Element t (Some s) []"

definition doc_channels :: xml where
  "doc_channels =
     Element ''Channels'' None
       [Element ''Channel'' None
          [leaf ''Number'' ''1'', leaf ''Name'' ''A'', leaf ''Type'' ''VOLT'', leaf ''Value'' ''5''],
        Element ''Channel'' None
          [leaf ''Number'' ''2'', leaf ''Name'' ''B'', leaf ''Type'' ''CURR'', leaf ''Value'' ''1'']]"

definition doc_ok :: xml where
  "doc_ok =
     Element ''Devices'' None
       [Element ''ElectronicLoads'' None
          [Element ''ElectronicLoad'' None
             [leaf ''ID'' ''L1'', leaf ''IP'' ''10.0.0.1'', leaf ''Port'' ''5025'', doc_channels]],
        Element ''PowerSupplys'' None
          [Element ''PowerSupply'' None
             [leaf ''ID'' ''P3'', leaf ''IP'' ''10.0.0.3'', leaf ''Port'' ''5025'',
              Element ''VoltageValues'' None
                [Element ''Channel'' None [leaf ''Number'' ''1'', leaf ''Value'' ''12'']],
              Element ''CurrentValues'' None
                [Element ''Channel'' None [leaf ''Number'' ''1'', leaf ''Value'' ''2'']]]]]"

definition doc_no_id :: xml where
  "doc_no_id =
     Element ''Devices'' None
       [Element ''ElectronicLoads'' None
          [Element ''ElectronicLoad'' None
             [leaf ''IP'' ''10.0.0.1'', leaf ''Port'' ''5025'', doc_channels]]]"

definition disk :: "string \<Rightarrow> parsed" where
  "disk file_path =
     (if file_path = ''devices.xml'' then Root doc_ok
      else if file_path = ''no_id.xml'' then Root doc_no_id
      else if file_path = ''broken.xml'' then NotWellFormed
      else NoSuchFile)"

section \<open>Properties: initialization\<close>































section \<open>Properties: telemetry logging\<close>


lemma cycle_step_refl: "cycle_step m m"
  by (simp add: cycle_step_def)

lemma cycle_step_trans: "cycle_step a b \<Longrightarrow> cycle_step b c \<Longrightarrow> cycle_step a c"
  by (auto simp: cycle_step_def)

lemma cycle_step_print: "cycle_step m (print l m)"
  by (simp add: cycle_step_def print_def)

lemma cycle_step_writerow: "cycle_step m (writerow r m)"
  by (simp add: cycle_step_def writerow_def)

lemma on_link_window: "on_link f c s = (r, c', w', m') \<Longrightarrow> m' = snd s"
  by (auto simp: on_link_def split: prod.splits)

lemma log_channel_shape:
  assumes "log_channel nw ch c s = (r, c', w', m')"
  shows "(\<exists>e. r = Inl e \<and> m' = snd s) \<or>
         (\<exists>cur vol res. r = Inr () \<and>
            m' = writerow [csv_cell (ip c'), str_int (ch_number ch), cur, vol, res]
                   (print (reading_line (ip c') (ch_number ch) cur vol res) (snd s)))"
  using assms
  by (auto simp: log_channel_def and_then_def on_link_def finished_def
      split: prod.splits sum.splits)


lemma log_channel_step:
  assumes "log_channel nw ch c s = (r, c', w', m')"
  shows "cycle_step (snd s) m'"
  using log_channel_shape [OF assms]
  by (auto intro: cycle_step_refl cycle_step_trans cycle_step_print cycle_step_writerow)

lemma for_each_log_channel_step:
  "for_each (log_channel nw) chs c s = (r, c', w', m') \<Longrightarrow> cycle_step (snd s) m'"
proof (induction chs arbitrary: c s)
  case Nil
  then show ?case by (auto simp: finished_def intro: cycle_step_refl)
next
  case (Cons ch chs)
  obtain r1 c1 w1 m1 where h: "log_channel nw ch c s = (r1, c1, w1, m1)"
    by (cases "log_channel nw ch c s") auto
  have s1: "cycle_step (snd s) m1" using log_channel_step [OF h] .
  show ?case
  proof (cases r1)
    case (Inl e)
    then show ?thesis using Cons.prems h s1 by (simp add: and_then_def)
  next
    case (Inr u)
    then have "for_each (log_channel nw) chs c1 (w1, m1) = (r, c', w', m')"
      using Cons.prems h by (simp add: and_then_def)
    from Cons.IH [OF this] show ?thesis using s1 by (auto intro: cycle_step_trans)
  qed
qed

lemma log_client_step:
  "log_client nw client s = (c', w', m') \<Longrightarrow> cycle_step (snd s) m'"
proof -
  assume a: "log_client nw client s = (c', w', m')"
  obtain r c1 w1 m1 where h: "for_each (log_channel nw) (channels client) client s = (r, c1, w1, m1)"
    by (cases "for_each (log_channel nw) (channels client) client s") auto
  have s1: "cycle_step (snd s) m1" using for_each_log_channel_step [OF h] .
  show ?thesis
    using a h s1
    by (cases r) (auto simp: log_client_def intro: cycle_step_trans cycle_step_print)
qed

lemma log_clients_step:
  "log_clients nw cs s = (cs', w', m') \<Longrightarrow> cycle_step (snd s) m'"
proof (induction cs arbitrary: s cs')
  case Nil
  then show ?case by (auto intro: cycle_step_refl)
next
  case (Cons client cs)
  obtain c1 w1 m1 where h: "log_client nw client s = (c1, w1, m1)"
    by (cases "log_client nw client s") auto
  obtain cs2 where "log_clients nw cs (w1, m1) = (cs2, w', m')"
    using Cons.prems h by (auto split: prod.splits)
  from Cons.IH [OF this] log_client_step [OF h] show ?case
    by (auto intro: cycle_step_trans)
qed

lemma log_data_step: "cycle_step (snd s) (snd (log_data nw s))"
proof -
  obtain cs w m where h: "log_clients nw (scpi_clients (snd s)) s = (cs, w, m)"
    by (cases "log_clients nw (scpi_clients (snd s)) s") auto
  have "cycle_step (snd s) m" using log_clients_step [OF h] .
  moreover have "cycle_step m (m\<lparr>scpi_clients := cs\<rparr>)" by (simp add: cycle_step_def)
  ultimately show ?thesis using h by (auto simp: log_data_def intro: cycle_step_trans)
qed


lemma for_each_append:
  "for_each body (xs @ ys) c s = and_then (for_each body xs c s) (\<lambda>u. for_each body ys)"
proof (induction xs arbitrary: c s)
  case Nil
  show ?case by (simp add: and_then_def finished_def)
next
  case (Cons x xs)
  obtain r c1 s1 where h: "body x c s = (r, c1, s1)"
    by (cases "body x c s") auto
  show ?case using h Cons.IH [of c1 s1] by (cases r) (simp_all add: and_then_def)
qed

lemma log_clients_append:
  "log_clients nw (xs @ ys) s =
     (case log_clients nw xs s of (r1, s1) \<Rightarrow>
        case log_clients nw ys s1 of (r2, s2) \<Rightarrow> (r1 @ r2, s2))"
proof (induction xs arbitrary: s)
  case Nil
  show ?case by (simp split: prod.splits)
next
  case (Cons x xs)
  obtain c1 s1 where h: "log_client nw x s = (c1, s1)"
    by (cases "log_client nw x s") auto
  show ?case using h Cons.IH [of s1] by (simp split: prod.splits)
qed

text \<open>
  Claim C6. In a poll cycle the clients are polled one after the other whatever happens
  to any of them: the cycle over a list of clients is the cycle over those before a
  client, then that client, then the cycle over those after it. When a command of one of
  the client's channels raises, the rows of its earlier channels stay in the log, no row
  is written for the failing channel, a line reporting the error is printed, the channels
  after it are not polled, and the exception goes no further. The cycle leaves the
  timers and the scheduled coroutines as they are, so later cycles still run.
\<close>

theorem client_failure_is_local:
  "log_clients nw (cs1 @ client # cs2) s =
     (case log_clients nw cs1 s of (r1, s1) \<Rightarrow>
        case log_client nw client s1 of (c', s2) \<Rightarrow>
          case log_clients nw cs2 s2 of (r2, s3) \<Rightarrow> (r1 @ c' # r2, s3)) \<and>
   (channels client = before @ ch # after \<and>
    for_each (log_channel nw) before client t0 = (Inr (), c1, t1) \<and>
    log_channel nw ch c1 t1 = (Inl e, c2, w2, m2) \<longrightarrow>
      m2 = snd t1 \<and>
      log_client nw client t0 =
        (c2, w2, print (''Error during logging from '' @ py_str (ip c2) @ '': '' @ exn_str e) m2)) \<and>
   cycle_step (snd s) (snd (log_data nw s))"
proof (intro conjI impI)
  show "log_clients nw (cs1 @ client # cs2) s =
     (case log_clients nw cs1 s of (r1, s1) \<Rightarrow>
        case log_client nw client s1 of (c', s2) \<Rightarrow>
          case log_clients nw cs2 s2 of (r2, s3) \<Rightarrow> (r1 @ c' # r2, s3))"
    by (simp add: log_clients_append split: prod.splits)
next
  assume a: "channels client = before @ ch # after \<and>
    for_each (log_channel nw) before client t0 = (Inr (), c1, t1) \<and>
    log_channel nw ch c1 t1 = (Inl e, c2, w2, m2)"
  then show "m2 = snd t1" using log_channel_shape [of nw ch c1 t1 "Inl e" c2 w2 m2] by auto
next
  assume a: "channels client = before @ ch # after \<and>
    for_each (log_channel nw) before client t0 = (Inr (), c1, t1) \<and>
    log_channel nw ch c1 t1 = (Inl e, c2, w2, m2)"
  then have "for_each (log_channel nw) (channels client) client t0 = (Inl e, c2, w2, m2)"
    by (simp add: for_each_append and_then_def)
  then show "log_client nw client t0 =
        (c2, w2, print (''Error during logging from '' @ py_str (ip c2) @ '': '' @ exn_str e) m2)"
    by (simp add: log_client_def)
next
  show "cycle_step (snd s) (snd (log_data nw s))" by (rule log_data_step)
qed

theorem client_failure_is_local_witness:
  "channels client2 = [] @ channel_a # [channel_b] \<and>
   for_each (log_channel (lab_dropped ''10.0.0.2'')) [] client2 (world0, window3) =
     (Inr (), client2, world0, window3) \<and>
   log_channel (lab_dropped ''10.0.0.2'') channel_a client2 (world0, window3) =
     (Inl (ConnectionError ''Error sending command to 10.0.0.2: Broken pipe''), client2,
      \<lparr>clock = 3, wire = [(Some ''10.0.0.2'', 5025, ''CHAN 1''),
                           (Some ''10.0.0.2'', 5025, ''MEASure:CURRent?'')]\<rparr>,
      window3) \<and>
   log_client (lab_dropped ''10.0.0.2'') client2 (world0, window3) =
     (client2,
      \<lparr>clock = 3, wire = [(Some ''10.0.0.2'', 5025, ''CHAN 1''),
                           (Some ''10.0.0.2'', 5025, ''MEASure:CURRent?'')]\<rparr>,
      print ''Error during logging from 10.0.0.2: Error sending command to 10.0.0.2: Broken pipe''
        window3) \<and>
   log_file (snd (log_data (lab_dropped ''10.0.0.2'') (world0, window3))) =
     [[''10.0.0.1'', ''1'', ''OK'', ''OK'', ''OK''],
      [''10.0.0.1'', ''2'', ''OK'', ''OK'', ''OK''],
      [''10.0.0.3'', ''1'', ''OK'', ''OK'', ''OK'']]"
proof -
  let ?nw = "lab_dropped ''10.0.0.2''"
  let ?w2 = "\<lparr>clock = 3, wire = [(Some ''10.0.0.2'', 5025, ''CHAN 1''),
                           (Some ''10.0.0.2'', 5025, ''MEASure:CURRent?'')]\<rparr>"
  let ?e = "ConnectionError ''Error sending command to 10.0.0.2: Broken pipe''"
  have h1: "channels client2 = [] @ channel_a # [channel_b]"
    by (simp add: client2_def)
  have h2: "for_each (log_channel ?nw) [] client2 (world0, window3) =
     (Inr (), client2, world0, window3)"
    by (simp add: finished_def)
  have h3: "log_channel ?nw channel_a client2 (world0, window3) = (Inl ?e, client2, ?w2, window3)"
    by code_simp
  have "log_client ?nw client2 (world0, window3) =
      (client2, ?w2,
       print (''Error during logging from '' @ py_str (ip client2) @ '': '' @ exn_str ?e) window3)"
    using client_failure_is_local [of ?nw "[]" client2 "[]" "(world0, window3)" "[]" channel_a
        "[channel_b]" "(world0, window3)" client2 "(world0, window3)" ?e client2 ?w2 window3]
      h1 h2 h3
    by blast
  moreover have "''Error during logging from '' @ py_str (ip client2) @ '': '' @ exn_str ?e =
      ''Error during logging from 10.0.0.2: Error sending command to 10.0.0.2: Broken pipe''"
    by code_simp
  moreover have "log_file (snd (log_data ?nw (world0, window3))) =
     [[''10.0.0.1'', ''1'', ''OK'', ''OK'', ''OK''],
      [''10.0.0.1'', ''2'', ''OK'', ''OK'', ''OK''],
      [''10.0.0.3'', ''1'', ''OK'', ''OK'', ''OK'']]"
    by code_simp
  ultimately show ?thesis using h1 h2 h3 by simp
qed



text \<open>
  Claim C3. The header written at start has six columns, beginning with \<open>Time\<close>; the
  rows a poll cycle appends have five cells, address first: no timestamp is written.
  Here a start is followed by one cycle over one client with two channels.
\<close>

theorem log_row_lacks_time:
  "log_file (snd (steps lab decimal [ClickStart, RunTask, Timeout 0, RunTask] (world0, window1))) =
     [[''Time'', ''IP'', ''Channel'', ''Current'', ''Voltage'', ''Resistance''],
      [''10.0.0.1'', ''1'', ''OK'', ''OK'', ''OK''],
      [''10.0.0.1'', ''2'', ''OK'', ''OK'', ''OK'']]"
  by code_simp


lemma stop_logging_log_file: "log_file (stop_logging m) = log_file m"
  by (simp add: stop_logging_def print_def split: option.splits)

lemma step_idle:
  assumes "idle (snd s)" and "ev \<noteq> ClickStart"
  shows "idle (snd (step nw to_int ev s)) \<and> log_file (snd (step nw to_int ev s)) = log_file (snd s)"
proof (cases s)
  case (Pair w m)
  have i: "idle m" using assms(1) Pair by simp
  have t: "tasks m = []" using i by (simp add: idle_def)
  have a: "True \<notin> set (timers m)" using i by (simp add: idle_def)
  show ?thesis
  proof (cases ev)
    case ClickStart
    then show ?thesis using assms(2) by simp
  next
    case ClickStop
    have u: "True \<notin> set ((timers m)[j := False])" for j
      using a set_update_subset_insert [of "timers m" j False] by auto
    have "idle (stop_logging m)"
      using t u a by (simp add: idle_def stop_logging_def print_def split: option.splits)
    then show ?thesis
      unfolding Pair ClickStop by (simp add: stop_logging_log_file)
  next
    case (Timeout j)
    have n: "\<not> (j < length (timers m) \<and> timers m ! j)"
    proof
      assume h: "j < length (timers m) \<and> timers m ! j"
      then have "j < length (timers m)" by simp
      then have "timers m ! j \<in> set (timers m)" by (rule nth_mem)
      moreover have "timers m ! j = True" using h by simp
      ultimately have "True \<in> set (timers m)" by (simp only:)
      then show False using a by simp
    qed
    have "step nw to_int (Timeout j) (w, m) = (w, m)"
      by (simp only: step.simps if_not_P [OF n])
    then show ?thesis unfolding Pair Timeout using i by simp
  next
    case RunTask
    have "step nw to_int RunTask (w, m) = (w, m)" using t by simp
    then show ?thesis unfolding Pair RunTask using i by simp
  next
    case (Edit x)
    have "idle (m\<lparr>logging_interval_input := x\<rparr>)" using i by (simp add: idle_def)
    then show ?thesis unfolding Pair Edit by simp
  qed
qed

lemma steps_idle:
  "idle (snd s) \<Longrightarrow> ClickStart \<notin> set evs \<Longrightarrow>
     log_file (snd (steps nw to_int evs s)) = log_file (snd s)"
proof (induction evs arbitrary: s)
  case Nil
  show ?case by simp
next
  case (Cons ev evs)
  have e: "ev \<noteq> ClickStart" and r: "ClickStart \<notin> set evs" using Cons.prems(2) by auto
  have i: "idle (snd (step nw to_int ev s))"
    and l: "log_file (snd (step nw to_int ev s)) = log_file (snd s)"
    using step_idle [OF Cons.prems(1) e] by auto
  show ?case using Cons.IH [OF i r] l by simp
qed

lemma stop_logging_idle:
  assumes "tasks m = []"
    and "\<forall>j<length (timers m). timers m ! j \<longrightarrow> logging_timer m = Some j"
  shows "idle (stop_logging m)"
proof (cases "logging_timer m")
  case None
  have "True \<notin> set (timers m)"
  proof
    assume "True \<in> set (timers m)"
    then obtain j where "j < length (timers m)" "timers m ! j = True"
      by (auto simp: in_set_conv_nth)
    then show False using assms(2) None by auto
  qed
  then show ?thesis using assms(1) None
    by (simp add: idle_def stop_logging_def print_def)
next
  case (Some i)
  have "True \<notin> set ((timers m)[i := False])"
  proof
    assume "True \<in> set ((timers m)[i := False])"
    then obtain j where j: "j < length (timers m)" "(timers m)[i := False] ! j = True"
      by (auto simp: in_set_conv_nth)
    then have "j \<noteq> i" by auto
    then have "timers m ! j" using j by simp
    then show False using assms(2) Some j(1) \<open>j \<noteq> i\<close> by auto
  qed
  then show ?thesis using assms(1) Some
    by (simp add: idle_def stop_logging_def print_def)
qed

text \<open>
  Claim C9, amended. After \<open>stop_logging\<close> has returned, a timeout of the timer that
  \<open>logging_timer\<close> refers to schedules nothing. If moreover no coroutine was waiting to
  run and no other timer was active when stop was called, then whatever happens
  afterwards short of a new click on start (timeouts, runs of the event loop, edits,
  further stops), the log file stays as it was. Nothing is promised for a poll cycle that
  was already scheduled when stop was called: it still runs.
\<close>

theorem stop_effective_when_idle:
  "(\<forall>i. logging_timer m = Some i \<longrightarrow>
        step nw to_int (Timeout i) (w, stop_logging m) = (w, stop_logging m)) \<and>
   (tasks m = [] \<and> (\<forall>j<length (timers m). timers m ! j \<longrightarrow> logging_timer m = Some j) \<and>
    ClickStart \<notin> set evs \<longrightarrow>
      log_file (snd (steps nw to_int evs (w, stop_logging m))) = log_file m)"
proof (intro conjI allI impI)
  fix i
  assume "logging_timer m = Some i"
  then show "step nw to_int (Timeout i) (w, stop_logging m) = (w, stop_logging m)"
    by (auto simp: stop_logging_def print_def)
next
  assume a: "tasks m = [] \<and>
    (\<forall>j<length (timers m). timers m ! j \<longrightarrow> logging_timer m = Some j) \<and> ClickStart \<notin> set evs"
  then have "idle (stop_logging m)" using stop_logging_idle by blast
  then have "log_file (snd (steps nw to_int evs (w, stop_logging m))) = log_file (stop_logging m)"
    using steps_idle [of "(w, stop_logging m)" evs nw to_int] a by simp
  then show "log_file (snd (steps nw to_int evs (w, stop_logging m))) = log_file m"
    by (simp add: stop_logging_log_file)
qed

theorem stop_effective_when_idle_witness:
  "logging_timer (snd running1) = Some 0 \<and>
   timers (snd running1) = [True] \<and>
   tasks (snd running1) = [] \<and>
   step lab decimal (Timeout 0) (fst running1, stop_logging (snd running1)) =
     (fst running1, stop_logging (snd running1)) \<and>
   ClickStart \<notin> set [Timeout 0, RunTask, Edit ''5'', ClickStop, Timeout 0, RunTask] \<and>
   log_file (snd (steps lab decimal [Timeout 0, RunTask, Edit ''5'', ClickStop, Timeout 0, RunTask]
                    (fst running1, stop_logging (snd running1)))) =
     [[''Time'', ''IP'', ''Channel'', ''Current'', ''Voltage'', ''Resistance''],
      [''10.0.0.1'', ''1'', ''OK'', ''OK'', ''OK''],
      [''10.0.0.1'', ''2'', ''OK'', ''OK'', ''OK'']]"
proof -
  let ?m = "snd running1"
  let ?evs = "[Timeout 0, RunTask, Edit ''5'', ClickStop, Timeout 0, RunTask]"
  have h1: "logging_timer ?m = Some 0" by code_simp
  have h2: "tasks ?m = []" by code_simp
  have t: "timers ?m = [True]" by code_simp
  have h3: "\<forall>j<length (timers ?m). timers ?m ! j \<longrightarrow> logging_timer ?m = Some j"
    by (simp add: t h1)
  have h4: "ClickStart \<notin> set ?evs" by simp
  have l: "log_file ?m =
     [[''Time'', ''IP'', ''Channel'', ''Current'', ''Voltage'', ''Resistance''],
      [''10.0.0.1'', ''1'', ''OK'', ''OK'', ''OK''],
      [''10.0.0.1'', ''2'', ''OK'', ''OK'', ''OK'']]"
    by code_simp
  have "step lab decimal (Timeout 0) (fst running1, stop_logging ?m) =
          (fst running1, stop_logging ?m) \<and>
        log_file (snd (steps lab decimal ?evs (fst running1, stop_logging ?m))) = log_file ?m"
    using stop_effective_when_idle [of ?m lab decimal "fst running1" ?evs] h1 h2 h3 h4
    by (simp only: simp_thms)
  then show ?thesis using h1 h2 t h4 l by (simp only: simp_thms)
qed

text \<open>
  The claim as first stated fails for a cycle already scheduled: the timer fires, stop
  is clicked before the event loop runs the coroutine, and the coroutine then appends two
  rows to a log that held the header only when stop returned.
\<close>

theorem scheduled_cycle_after_stop_counterexample:
  "log_file (snd (steps lab decimal [ClickStart, RunTask, Timeout 0, ClickStop]
                    (world0, window1))) =
     [[''Time'', ''IP'', ''Channel'', ''Current'', ''Voltage'', ''Resistance'']] \<and>
   log_file (snd (steps lab decimal [ClickStart, RunTask, Timeout 0, ClickStop, RunTask]
                    (world0, window1))) =
     [[''Time'', ''IP'', ''Channel'', ''Current'', ''Voltage'', ''Resistance''],
      [''10.0.0.1'', ''1'', ''OK'', ''OK'', ''OK''],
      [''10.0.0.1'', ''2'', ''OK'', ''OK'', ''OK'']]"
  by code_simp

section \<open>Properties: the manual command\<close>

text \<open>
  Claim C7, amended. Take a non-empty address, a port text that reads as a port number
  between 1 and 65535 and a non-empty ASCII command. The manual command creates a client
  of its own for that address and port and leaves the window's set of clients as it
  was. It ends without an exception exactly when the connection is established and the
  instrument's response is received; then the command is the one text written to the
  link, the response is appended to the output pane (\<open>None\<close> standing for the empty
  response, shown as \<open>(Yok)\<close>), and the link is closed. In every other case a
  \<open>ConnectionError\<close> leaves the operation, the window is unchanged and the link is
  not closed: the client still holds its socket object. So the link is closed exactly
  when the operation succeeds.
\<close>

theorem manual_command_closes_on_success:
  assumes "ip_text \<noteq> []" and "to_int port_text = Some p" and "valid_port p"
    and "command \<noteq> []" and "plain_ascii command"
  shows "\<exists>e c w' m'.
      async_connect_and_send_manual_command nw to_int ip_text port_text command (w, m) =
        ((e, Some c), w', m') \<and>
      ip c = Some ip_text \<and> port c = p \<and> scpi_clients m' = scpi_clients m \<and>
      (e = None) =
        (dial nw (clock w) (Some ip_text) p = None \<and>
         (\<exists>r. answer nw (Suc (clock w)) (Some ip_text) p command = Sent (Inr r))) \<and>
      (sock c = None) = (e = None) \<and>
      (case e of
         None \<Rightarrow>
           wire w' = wire w @ [(Some ip_text, p, command)] \<and>
           (\<exists>r. answer nw (Suc (clock w)) (Some ip_text) p command = Sent (Inr r) \<and>
                response_output m' =
                  response_output m @ [(command, if r = [] then None else Some r)])
       | Some x \<Rightarrow> (\<exists>msg. x = ConnectionError msg) \<and> m' = m)"
proof -
  let ?run = "async_connect_and_send_manual_command nw to_int ip_text port_text command (w, m)"
  let ?fresh = "SCPIClient (Some ip_text) p :: 'a scpi_client"
  let ?c = "?fresh\<lparr>sock := Some True\<rparr>"
  have guard: "\<not> (ip_text = [] \<or> p = 0 \<or> command = [])"
    using assms by (simp add: valid_port_def)
  have c: "ip ?c = Some ip_text" "port ?c = p" "sock ?c = Some True" "sock ?fresh = None"
    by (simp_all add: SCPIClient_def)
  show ?thesis
  proof (cases "dial nw (clock w) (Some ip_text) p")
    case (Some x)
    have con: "connect nw ?fresh w =
        (Inl (ConnectionError (''Connection error to '' @ py_str (ip ?fresh) @ '': '' @ x)),
         ?fresh\<lparr>sock := Some False\<rparr>, tick w)"
      using Some by (simp add: connect_def SCPIClient_def)
    have res: "?run =
        ((Some (ConnectionError (''Connection error to '' @ py_str (ip ?fresh) @ '': '' @ x)),
          Some (?fresh\<lparr>sock := Some False\<rparr>)), tick w, m)"
      by (simp add: async_connect_and_send_manual_command_def assms(2) guard con)
    show ?thesis unfolding res using Some by (simp add: SCPIClient_def)
  next
    case None
    have con: "connect nw ?fresh w = (Inr (), ?c, tick w)"
      using None by (simp add: connect_def SCPIClient_def)
    have ans: "ip ?fresh = Some ip_text" "port ?fresh = p" "clock (tick w) = Suc (clock w)"
      by (simp_all add: tick_def SCPIClient_def)
    show ?thesis
    proof (cases "answer nw (Suc (clock w)) (Some ip_text) p command")
      case (SendFault x)
      have s: "send_command nw command ?c (tick w) =
          (Inl (sending_error ?c x), ?c, tick (tick w))"
        by (simp add: send_command_def exchange_def c(3) ans SendFault)
      have res: "?run = ((Some (sending_error ?c x), Some ?c), tick (tick w), m)"
        by (simp add: async_connect_and_send_manual_command_def assms(2) guard con s)
      show ?thesis unfolding res using None SendFault
        by (simp add: SCPIClient_def sending_error_def)
    next
      case (Sent received)
      show ?thesis
      proof (cases received)
        case (Inl x)
        have s: "send_command nw command ?c (tick w) =
            (Inl (sending_error ?c (''Error reading response from '' @ py_str (ip ?c) @ '': '' @ x)),
             ?c, transmitted ?c command (tick (tick w)))"
          by (simp add: send_command_def exchange_def read_response_def c(3) ans Sent Inl)
        have res: "?run =
            ((Some (sending_error ?c
                      (''Error reading response from '' @ py_str (ip ?c) @ '': '' @ x)),
              Some ?c), transmitted ?c command (tick (tick w)), m)"
          by (simp add: async_connect_and_send_manual_command_def assms(2) guard con s)
        show ?thesis unfolding res using None Sent Inl
          by (simp add: SCPIClient_def sending_error_def)
      next
        case (Inr r)
        have s: "send_command nw command ?c (tick w) =
            (Inr r, ?c, transmitted ?c command (tick (tick w)))"
          by (simp add: send_command_def exchange_def read_response_def c(3) ans Sent Inr)
        have res: "?run =
            ((None, Some (close ?c)), transmitted ?c command (tick (tick w)),
             if r \<noteq> [] then
               m\<lparr>response_output := response_output m @ [(command, Some r)],
                  manual_command_status := Some (CommandSent r)\<rparr>
             else
               m\<lparr>response_output := response_output m @ [(command, None)],
                  manual_command_status := Some CommandNotSent\<rparr>)"
          by (simp add: async_connect_and_send_manual_command_def assms(2) guard con s)
        show ?thesis unfolding res using None Sent Inr
          by (simp add: SCPIClient_def close_def transmitted_def tick_def)
      qed
    qed
  qed
qed

theorem manual_command_closes_on_success_witness:
  "decimal ''5025'' = Some 5025 \<and> valid_port 5025 \<and> plain_ascii ''*IDN?'' \<and>
   (\<exists>c w' m'.
      async_connect_and_send_manual_command lab decimal ''10.0.0.1'' ''5025'' ''*IDN?''
        (world0, window3) = ((None, Some c), w', m') \<and>
      ip c = Some ''10.0.0.1'' \<and> port c = 5025 \<and> sock c = None \<and>
      scpi_clients m' = [client1, client2, client3] \<and>
      wire w' = [(Some ''10.0.0.1'', 5025, ''*IDN?'')] \<and>
      response_output m' = [(''*IDN?'', Some ''OK'')])"
proof -
  have h1: "''10.0.0.1'' \<noteq> []" by simp
  have h2: "decimal ''5025'' = Some 5025" by code_simp
  have h3: "valid_port 5025" by (simp add: valid_port_def)
  have h4: "''*IDN?'' \<noteq> []" by simp
  have h5: "plain_ascii ''*IDN?''" by code_simp
  have d: "dial lab (clock world0) (Some ''10.0.0.1'') 5025 = None" by (simp add: lab_def)
  have a: "answer lab (Suc (clock world0)) (Some ''10.0.0.1'') 5025 ''*IDN?'' = Sent (Inr ''OK'')"
    by (simp add: lab_def)
  have s: "scpi_clients window3 = [client1, client2, client3]"
    by (simp add: window3_def)
  have r: "response_output window3 = []" by (simp add: window3_def window0_def)
  have w: "wire world0 = []" by (simp add: world0_def)
  let ?P = "\<lambda>e c w' m'.
      async_connect_and_send_manual_command lab decimal ''10.0.0.1'' ''5025'' ''*IDN?''
          (world0, window3) = ((e, Some c), w', m') \<and>
      ip c = Some ''10.0.0.1'' \<and> port c = 5025 \<and> scpi_clients m' = scpi_clients window3 \<and>
      (e = None) =
        (dial lab (clock world0) (Some ''10.0.0.1'') 5025 = None \<and>
         (\<exists>r. answer lab (Suc (clock world0)) (Some ''10.0.0.1'') 5025 ''*IDN?'' = Sent (Inr r))) \<and>
      (sock c = None) = (e = None) \<and>
      (case e of
         None \<Rightarrow>
           wire w' = wire world0 @ [(Some ''10.0.0.1'', 5025, ''*IDN?'')] \<and>
           (\<exists>r. answer lab (Suc (clock world0)) (Some ''10.0.0.1'') 5025 ''*IDN?'' = Sent (Inr r) \<and>
                response_output m' =
                  response_output window3 @ [(''*IDN?'', if r = [] then None else Some r)])
       | Some x \<Rightarrow> (\<exists>msg. x = ConnectionError msg) \<and> m' = window3)"
  have "\<exists>e c w' m'. ?P e c w' m'"
    using manual_command_closes_on_success
      [of "''10.0.0.1''" decimal "''5025''" 5025 "''*IDN?''" lab world0 window3, OF h1 h2 h3 h4 h5] .
  then obtain e c w' m' where t: "?P e c w' m'"
    by (elim exE) (rule that)
  have e: "e = None" using t d a by simp
  have "wire w' = [(Some ''10.0.0.1'', 5025, ''*IDN?'')]"
    and "response_output m' = [(''*IDN?'', Some ''OK'')]"
    using t e a r w by simp_all
  moreover have "async_connect_and_send_manual_command lab decimal ''10.0.0.1'' ''5025'' ''*IDN?''
          (world0, window3) = ((None, Some c), w', m')"
    and "ip c = Some ''10.0.0.1''" and "port c = 5025" and "sock c = None"
    and "scpi_clients m' = [client1, client2, client3]"
    using t e s by simp_all
  ultimately show ?thesis using h2 h3 h5 by blast
qed

text \<open>
  The claim as first stated asks for the link to be closed on failure too. When the
  instrument drops the connection at the command, and when it refuses the connection,
  the \<open>ConnectionError\<close> leaves the operation and the client still holds its socket.
\<close>

theorem manual_command_link_left_open_counterexample:
  "async_connect_and_send_manual_command (lab_dropped ''10.0.0.2'') decimal
       ''10.0.0.2'' ''5025'' ''MEASure:VOLTage?'' (world0, window0) =
     ((Some (ConnectionError ''Error sending command to 10.0.0.2: Broken pipe''),
       Some \<lparr>ip = Some ''10.0.0.2'', port = 5025, sock = Some True, channels = []\<rparr>),
      \<lparr>clock = 2, wire = []\<rparr>, window0) \<and>
   async_connect_and_send_manual_command (lab_refusing ''10.0.0.2'') decimal
       ''10.0.0.2'' ''5025'' ''*IDN?'' (world0, window0) =
     ((Some (ConnectionError ''Connection error to 10.0.0.2: refused''),
       Some \<lparr>ip = Some ''10.0.0.2'', port = 5025, sock = Some False, channels = []\<rparr>),
      \<lparr>clock = 1, wire = []\<rparr>, window0)"
  by code_simp

section \<open>Properties: the configuration document\<close>

lemma bind_exn_raises:
  assumes "bind_exn r f = Inl e"
    and "\<And>x. r = Inl x \<Longrightarrow> P x"
    and "\<And>a x. f a = Inl x \<Longrightarrow> P x"
  shows "P e"
  using assms by (cases r) (auto simp: bind_exn_def)

lemma collect_raises:
  assumes "collect body xs = Inl e" and "\<And>a x. body a = Inl x \<Longrightarrow> P x"
  shows "P e"
  using assms(1)
proof (induction xs arbitrary: e)
  case Nil
  then show ?case by simp
next
  case (Cons a xs)
  show ?case
  proof (cases "body a")
    case (Inl x)
    then show ?thesis using Cons.prems assms(2) by (auto simp: bind_exn_def)
  next
    case (Inr y)
    show ?thesis
    proof (cases "collect body xs")
      case (Inl x)
      then show ?thesis using Cons.prems Cons.IH Inr by (auto simp: bind_exn_def)
    next
      case (Inr ys)
      then show ?thesis using Cons.prems \<open>body a = Inr y\<close> by (simp add: bind_exn_def)
    qed
  qed
qed

lemma collect_returns:
  "collect body xs = Inr ys \<Longrightarrow> x \<in> set xs \<Longrightarrow> \<exists>y. body x = Inr y"
proof (induction xs arbitrary: ys)
  case Nil
  then show ?case by simp
next
  case (Cons a xs)
  then show ?case
    by (cases "body a"; cases "collect body xs") (auto simp: bind_exn_def)
qed

lemma find_text_raises: "find_text t x = Inl e \<Longrightarrow> field_error e"
  by (auto simp: find_text_def field_error_def split: option.splits)

lemma convert_raises: "convert f t = Inl e \<Longrightarrow> field_error e"
  by (auto simp: convert_def field_error_def split: option.splits)

lemma number_raises: "bind_exn (find_text t x) (convert f) = Inl e \<Longrightarrow> field_error e"
  by (erule bind_exn_raises) (auto dest: find_text_raises convert_raises)

lemma read_channel_raises: "read_channel to_int to_float x = Inl e \<Longrightarrow> field_error e"
  unfolding read_channel_def
  by (elim bind_exn_raises) (auto dest: find_text_raises convert_raises)

lemma read_setting_raises: "read_setting to_int to_float x = Inl e \<Longrightarrow> field_error e"
  unfolding read_setting_def
  by (elim bind_exn_raises) (auto dest: find_text_raises convert_raises)

lemma read_list_raises:
  assumes "read_list t body x = Inl e" and "\<And>a y. body a = Inl y \<Longrightarrow> field_error y"
  shows "field_error e"
proof (cases "et_find t x")
  case None
  then show ?thesis using assms(1) by (simp add: read_list_def field_error_def)
next
  case (Some c)
  then have "collect body (et_findall ''Channel'' c) = Inl e"
    using assms(1) by (simp add: read_list_def)
  then show ?thesis using assms(2) by (rule collect_raises)
qed

lemma read_load_raises: "read_load to_int to_float x = Inl e \<Longrightarrow> field_error e"
  unfolding read_load_def
  by (elim bind_exn_raises)
     (auto dest: find_text_raises convert_raises elim: read_list_raises read_channel_raises)

lemma read_supply_raises: "read_supply to_int to_float x = Inl e \<Longrightarrow> field_error e"
  unfolding read_supply_def
  by (elim bind_exn_raises)
     (auto dest: find_text_raises convert_raises elim: read_list_raises read_setting_raises)

lemma read_devices_raises:
  assumes "fs file_path = Root root"
    and "read_devices_from_xml fs to_int to_float file_path = Inl e"
  shows "field_error e"
proof -
  have "bind_exn
          (collect (read_load to_int to_float)
             (et_findall2 ''ElectronicLoads'' ''ElectronicLoad'' root)) (\<lambda>loads.
        bind_exn
          (collect (read_supply to_int to_float)
             (et_findall2 ''PowerSupplys'' ''PowerSupply'' root)) (\<lambda>supplies.
          Inr (loads @ supplies))) = Inl e"
    using assms by (simp add: read_devices_from_xml_def)
  then show ?thesis
    by (elim bind_exn_raises collect_raises) (auto dest: read_load_raises read_supply_raises)
qed

lemma read_load_without_id:
  "et_find ''ID'' d = None \<Longrightarrow> read_load to_int to_float d = Inl AttributeError"
  by (simp add: read_load_def find_text_def bind_exn_def)

lemma read_devices_without_id:
  assumes "fs file_path = Root root"
    and "d \<in> set (et_findall2 ''ElectronicLoads'' ''ElectronicLoad'' root)"
    and "et_find ''ID'' d = None"
  shows "\<exists>e. read_devices_from_xml fs to_int to_float file_path = Inl e"
proof (cases "collect (read_load to_int to_float)
                (et_findall2 ''ElectronicLoads'' ''ElectronicLoad'' root)")
  case (Inl e)
  then show ?thesis using assms(1) by (simp add: read_devices_from_xml_def bind_exn_def)
next
  case (Inr loads)
  then have "\<exists>y. read_load to_int to_float d = Inr y"
    using assms(2) by (rule collect_returns)
  then show ?thesis using read_load_without_id [OF assms(3), of to_int to_float] by simp
qed

lemma load_xml_raised:
  assumes "file_path \<noteq> []" and "read_devices_from_xml fs to_int to_float file_path = Inl e"
    and "field_error e"
  shows "load_xml fs to_int to_float file_path m = (Some e, m)"
  using assms by (auto simp: load_xml_def field_error_def)

text \<open>
  Claim C8, amended. For a non-empty path, \<open>load_xml\<close> ends in one of four ways. A
  missing file and a document that is not well-formed XML are each reported by a dialog
  of their own that quotes the path, and the window is otherwise unchanged. A document
  that parses either yields the device list, which is stored and confirmed by a dialog,
  or makes the reader raise \<open>AttributeError\<close>, \<open>TypeError\<close> or \<open>ValueError\<close>;
  \<open>load_xml\<close> catches none of the three, so the exception leaves it, no dialog is shown
  and the window is unchanged. The latter is what happens whenever some load of the
  document has no \<open>ID\<close> element. There is no \<open>ConfigError\<close> and no third kind of
  report: an incomplete record is not surfaced to the operator.
\<close>

theorem load_xml_outcomes:
  assumes "file_path \<noteq> []"
  shows "(fs file_path = NoSuchFile \<longrightarrow>
            load_xml fs to_int to_float file_path m =
              (None, show_dialog (FileNotFoundDialog file_path) m)) \<and>
         (fs file_path = NotWellFormed \<longrightarrow>
            load_xml fs to_int to_float file_path m =
              (None, show_dialog (FileUnreadableDialog file_path) m)) \<and>
         (\<forall>root. fs file_path = Root root \<longrightarrow>
            (\<exists>ds. read_devices_from_xml fs to_int to_float file_path = Inr ds \<and>
                  load_xml fs to_int to_float file_path m =
                    (None, show_dialog LoadedOk (m\<lparr>devices := Some ds\<rparr>))) \<or>
            (\<exists>e. field_error e \<and>
                  read_devices_from_xml fs to_int to_float file_path = Inl e \<and>
                  load_xml fs to_int to_float file_path m = (Some e, m))) \<and>
         (\<forall>root d. fs file_path = Root root \<and>
                   d \<in> set (et_findall2 ''ElectronicLoads'' ''ElectronicLoad'' root) \<and>
                   et_find ''ID'' d = None \<longrightarrow>
            (\<exists>e. field_error e \<and> load_xml fs to_int to_float file_path m = (Some e, m)))"
proof (intro conjI allI impI)
  assume "fs file_path = NoSuchFile"
  then show "load_xml fs to_int to_float file_path m =
      (None, show_dialog (FileNotFoundDialog file_path) m)"
    using assms by (simp add: load_xml_def read_devices_from_xml_def)
next
  assume "fs file_path = NotWellFormed"
  then show "load_xml fs to_int to_float file_path m =
      (None, show_dialog (FileUnreadableDialog file_path) m)"
    using assms by (simp add: load_xml_def read_devices_from_xml_def)
next
  fix root
  assume r: "fs file_path = Root root"
  show "(\<exists>ds. read_devices_from_xml fs to_int to_float file_path = Inr ds \<and>
              load_xml fs to_int to_float file_path m =
                (None, show_dialog LoadedOk (m\<lparr>devices := Some ds\<rparr>))) \<or>
        (\<exists>e. field_error e \<and>
              read_devices_from_xml fs to_int to_float file_path = Inl e \<and>
              load_xml fs to_int to_float file_path m = (Some e, m))"
  proof (cases "read_devices_from_xml fs to_int to_float file_path")
    case (Inl e)
    have f: "field_error e" using r Inl by (rule read_devices_raises)
    show ?thesis using Inl f load_xml_raised [OF assms Inl f] by blast
  next
    case (Inr ds)
    then show ?thesis using assms by (simp add: load_xml_def)
  qed
next
  fix root d
  assume a: "fs file_path = Root root \<and>
             d \<in> set (et_findall2 ''ElectronicLoads'' ''ElectronicLoad'' root) \<and>
             et_find ''ID'' d = None"
  then obtain e where e: "read_devices_from_xml fs to_int to_float file_path = Inl e"
    using read_devices_without_id [of fs file_path root d to_int to_float] by blast
  have f: "field_error e" using a e read_devices_raises [of fs file_path root to_int to_float e]
    by blast
  show "\<exists>e. field_error e \<and> load_xml fs to_int to_float file_path m = (Some e, m)"
    using f load_xml_raised [OF assms e f] by blast
qed

theorem load_xml_outcomes_witness:
  "''devices.xml'' \<noteq> [] \<and> disk ''devices.xml'' = Root doc_ok \<and>
   load_xml disk decimal decimal_float ''devices.xml'' window0 =
     (None, show_dialog LoadedOk (window0\<lparr>devices := Some [load1, supply3]\<rparr>)) \<and>
   disk ''absent.xml'' = NoSuchFile \<and>
   load_xml disk decimal decimal_float ''absent.xml'' window0 =
     (None, show_dialog (FileNotFoundDialog ''absent.xml'') window0) \<and>
   disk ''broken.xml'' = NotWellFormed \<and>
   load_xml disk decimal decimal_float ''broken.xml'' window0 =
     (None, show_dialog (FileUnreadableDialog ''broken.xml'') window0)"
proof -
  have h: "''devices.xml'' \<noteq> []" "''absent.xml'' \<noteq> []" "''broken.xml'' \<noteq> []"
    by simp_all
  have d: "disk ''devices.xml'' = Root doc_ok" "disk ''absent.xml'' = NoSuchFile"
    "disk ''broken.xml'' = NotWellFormed"
    by (simp_all add: disk_def)
  have r: "read_devices_from_xml disk decimal decimal_float ''devices.xml'' = Inr [load1, supply3]"
    by code_simp
  have "load_xml disk decimal decimal_float ''devices.xml'' window0 =
     (None, show_dialog LoadedOk (window0\<lparr>devices := Some [load1, supply3]\<rparr>))"
    using load_xml_outcomes [OF h(1), of disk decimal decimal_float window0] d(1) r by auto
  moreover have "load_xml disk decimal decimal_float ''absent.xml'' window0 =
     (None, show_dialog (FileNotFoundDialog ''absent.xml'') window0)"
    using load_xml_outcomes [OF h(2), of disk decimal decimal_float window0] d(2) by blast
  moreover have "load_xml disk decimal decimal_float ''broken.xml'' window0 =
     (None, show_dialog (FileUnreadableDialog ''broken.xml'') window0)"
    using load_xml_outcomes [OF h(3), of disk decimal decimal_float window0] d(3) by blast
  ultimately show ?thesis using h(1) d by blast
qed

text \<open>
  The claim as first stated asks for a report of its own when a record lacks a field.
  For the document whose load has no \<open>ID\<close> element, \<open>load_xml\<close> shows no dialog at
  all: \<open>AttributeError\<close> leaves it.
\<close>

theorem missing_field_counterexample:
  "load_xml disk decimal decimal_float ''no_id.xml'' window0 = (Some AttributeError, window0)"
  by code_simp

end
